theory Spec2Isabelle
  imports Main
begin

section \<open>Calico: scripted checking of interactive programs\<close>

text \<open>
  A shallow embedding of \<^verbatim>\<open>calico/base.py\<close> (actions, \<^verbatim>\<open>run_script\<close>,
  \<^verbatim>\<open>TestCase\<close>, the suite \<^verbatim>\<open>Calico\<close>) and of \<^verbatim>\<open>calico/parse.py\<close>
  (\<^verbatim>\<open>get_comment_value\<close>, \<^verbatim>\<open>parse_spec\<close>).

  Python values: \<open>int\<close> is \<^typ>\<open>int\<close>, \<open>Optional[int]\<close> is \<^typ>\<open>int option\<close> with
  \<open>None\<close> for Python's \<open>None\<close>, \<open>str\<close> is \<^typ>\<open>string\<close>. An exception that leaves a
  function is the \<open>Inl\<close> branch of its result. Objects that the code mutates in place
  (the script of a test case, the cases of a suite) are returned updated.
\<close>

subsection \<open>Exceptions\<close>

datatype exn =
    AssertionError string
  | TypeError
  | AttributeError
  | IndexError
  | KeyError
  | ValueError
  | ExceptionPexpect
  | OSError

subsection \<open>Actions\<close>

datatype ActionType = EXPECT | SEND

text \<open>
  \<^verbatim>\<open>ActionType.value\<close> is the pair of the short and the long name of the member.
\<close>

fun ActionType_value :: "ActionType \<Rightarrow> string \<times> string" where
  "ActionType_value EXPECT = (''e'', ''expect'')"
| "ActionType_value SEND = (''s'', ''send'')"

text \<open>
  The \<open>data\<close> attribute of an action is a \<open>str\<close>, or the class \<^verbatim>\<open>pexpect.EOF\<close>
  itself. The comparison \<^verbatim>\<open>x != "_EOF_"\<close> of the source is true of the class and of
  every string but \<^verbatim>\<open>"_EOF_"\<close>.
\<close>

datatype pdata = Str string | EOF

record Action =
  atype :: ActionType
  data :: pdata
  timeout :: "int option"

text \<open>\<^verbatim>\<open>Action.__init__(type_, data, timeout=-1)\<close>\<close>

definition mk_Action :: "ActionType \<Rightarrow> string \<Rightarrow> int option \<Rightarrow> Action" where
  "mk_Action ty d t =
     \<lparr>atype = ty, data = (if d \<noteq> ''_EOF_'' then Str d else EOF), timeout = t\<rparr>"

subsection \<open>Test cases\<close>

record TestCase =
  name :: string
  command :: string
  script :: "Action list"
  case_timeout :: "int option"
  exits :: "int option"
  points :: "int option"
  blocker :: bool
  visible :: bool

text \<open>
  \<^verbatim>\<open>TestCase.__init__(name, command, timeout=-1, exits=0, points=None, blocker=False,
  visible=True)\<close>, applied to the keyword arguments the caller gives: an absent keyword
  is \<open>None\<close> here and takes the default of the signature.
\<close>

definition mk_TestCase ::
  "string \<Rightarrow> string \<Rightarrow> int option option \<Rightarrow> int option option \<Rightarrow> int option option \<Rightarrow>
   bool option \<Rightarrow> bool option \<Rightarrow> TestCase" where
  "mk_TestCase n c t e p b v =
     \<lparr>name = n, command = c, script = [],
      case_timeout = (case t of None \<Rightarrow> Some (- 1) | Some x \<Rightarrow> x),
      exits = (case e of None \<Rightarrow> Some 0 | Some x \<Rightarrow> x),
      points = (case p of None \<Rightarrow> None | Some x \<Rightarrow> x),
      blocker = (case b of None \<Rightarrow> False | Some x \<Rightarrow> x),
      visible = (case v of None \<Rightarrow> True | Some x \<Rightarrow> x)\<rparr>"

definition add_action :: "TestCase \<Rightarrow> Action \<Rightarrow> TestCase" where
  "add_action c a = c\<lparr>script := script c @ [a]\<rparr>"

subsection \<open>The child process and the world around a run\<close>

text \<open>
  What the code does to \<^verbatim>\<open>pexpect\<close>, in order: the calls it makes with the
  arguments it passes.
\<close>

datatype event =
    Spawn string "int option"
  | SetEcho bool
  | Expect pdata "int option"
  | SendLine pdata
  | Close bool

text \<open>
  What the child's output does while \<^verbatim>\<open>process.expect\<close> waits: the pattern is found
  in it, the stream ends, the time runs out, or the call raises something else.
  Logging is not modelled, and the strings the source renders for its debug messages
  (which decode the captured output) are taken to evaluate.
\<close>

datatype reaction = Found | Closed | TimedOut | Raises exn

text \<open>
  The world of a run. Everything the code reads from outside is a function of the
  history of calls made so far, so one world is one deterministic behaviour of the
  children, and a theorem for all worlds is a theorem for every behaviour.
  \<^item> \<open>GLOBAL_TIMEOUT\<close>, \<open>SUPPORTS_JAIL\<close>: constants of the package's
    \<^verbatim>\<open>__init__\<close> module; \<open>getcwd\<close>: \<^verbatim>\<open>os.getcwd()\<close>.
  \<^item> \<open>fmt\<close>: Python's \<^verbatim>\<open>str % mapping\<close>; \<open>fmt_object\<close>: \<^verbatim>\<open>str % obj\<close> for an
    operand that is not a mapping, whose outcome may depend on the state of the object.
  \<^item> \<open>spawn_raises\<close>, \<open>reaction\<close>, \<open>sendline_raises\<close>: the outcomes of
    \<^verbatim>\<open>pexpect.spawn\<close>, \<^verbatim>\<open>expect\<close> and \<^verbatim>\<open>sendline\<close>, given the history that ends
    with the call.
  \<^item> \<open>exitstatus\<close>, \<open>signalstatus\<close>: the attributes read after the run.
\<close>

record world =
  GLOBAL_TIMEOUT :: "int option"
  SUPPORTS_JAIL :: bool
  getcwd :: string
  fmt :: "string \<Rightarrow> (string \<times> string) list \<Rightarrow> exn + string"
  fmt_object :: "event list \<Rightarrow> string \<Rightarrow> exn + string"
  spawn_raises :: "event list \<Rightarrow> exn option"
  reaction :: "event list \<Rightarrow> reaction"
  sendline_raises :: "event list \<Rightarrow> exn option"
  exitstatus :: "event list \<Rightarrow> int option"
  signalstatus :: "event list \<Rightarrow> int option"

text \<open>
  The \<open>defs\<close> argument after \<^verbatim>\<open>defs if defs is not None else {}\<close>: a mapping, or
  another object (a suite passes \<^verbatim>\<open>self.get("_define_vars")\<close>, which is a test case
  when the suite has an entry of that name).
\<close>

datatype defs_val = DefsMapping "(string \<times> string) list" | DefsObject

definition substitute :: "world \<Rightarrow> event list \<Rightarrow> defs_val \<Rightarrow> string \<Rightarrow> exn + string" where
  "substitute w h defs s =
     (case defs of DefsMapping m \<Rightarrow> fmt w s m | DefsObject \<Rightarrow> fmt_object w h s)"

text \<open>
  \<^verbatim>\<open>pexpect\<close>: the timeout a match runs with. The argument \<open>-1\<close> stands for the
  timeout the process was spawned with; \<open>None\<close> is no limit.
\<close>

definition match_timeout :: "int option \<Rightarrow> int option \<Rightarrow> int option" where
  "match_timeout spawned arg = (if arg = Some (- 1) then spawned else arg)"

text \<open>
  The outcome of \<^verbatim>\<open>process.expect(pattern, ...)\<close>. Expecting \<^verbatim>\<open>pexpect.EOF\<close>
  matches when the stream ends; for a string pattern the end of the stream raises
  \<^verbatim>\<open>pexpect.EOF\<close>.
\<close>

datatype outcome = Matched | RaisesEOF | RaisesTIMEOUT | Propagates exn

fun expect_outcome :: "pdata \<Rightarrow> reaction \<Rightarrow> outcome" where
  "expect_outcome p Found = Matched"
| "expect_outcome EOF Closed = Matched"
| "expect_outcome (Str s) Closed = RaisesEOF"
| "expect_outcome p TimedOut = RaisesTIMEOUT"
| "expect_outcome p (Raises e) = Propagates e"

subsection \<open>\<^verbatim>\<open>run_script\<close>\<close>

text \<open>
  Lines 104 to 106: the condition under which an end-of-output \<open>Expect\<close> is appended to
  the script (in place) before the loop.
\<close>

definition appends_EOF :: "Action list \<Rightarrow> bool" where
  "appends_EOF scr =
     (case (if length scr > 0 then Some (last scr) else None) of
        None \<Rightarrow> True
      | Some l \<Rightarrow> atype l \<noteq> EXPECT \<and> data l \<noteq> Str ''_EOF_'')"

definition with_EOF :: "Action list \<Rightarrow> Action list" where
  "with_EOF scr =
     (if appends_EOF scr then scr @ [mk_Action EXPECT ''_EOF_'' (Some (- 1))] else scr)"

text \<open>
  The loop of lines 108 to 148 over the remaining actions. The result is what the loop
  leaves behind: the exception that escaped or the error list, the actions with the
  data the loop stored into them, and the history. \<open>subst_action\<close> is lines 109 and
  110. The \<open>else\<close> branch of the \<open>for\<close> runs when the loop was not left by \<open>break\<close>.
\<close>

definition subst_action :: "world \<Rightarrow> event list \<Rightarrow> defs_val \<Rightarrow> Action \<Rightarrow> exn + Action" where
  "subst_action w h defs a =
     (case data a of
        EOF \<Rightarrow> Inr a
      | Str s \<Rightarrow> (case substitute w h defs s of
                    Inl e \<Rightarrow> Inl e
                  | Inr s' \<Rightarrow> Inr (a\<lparr>data := Str s'\<rparr>)))"

fun script_loop ::
  "world \<Rightarrow> defs_val \<Rightarrow> Action list \<Rightarrow> event list \<Rightarrow>
   (exn + string list) \<times> Action list \<times> event list" where
  "script_loop w defs [] h = (Inr [], [], h @ [Close True])"
| "script_loop w defs (a # rest) h =
     (case subst_action w h defs a of
        Inl e \<Rightarrow> (Inl e, a # rest, h)
      | Inr a' \<Rightarrow>
          (case atype a' of
             EXPECT \<Rightarrow>
               (let h1 = h @ [Expect (data a') (timeout a')] in
                case expect_outcome (data a') (reaction w h1) of
                  Propagates e \<Rightarrow> (Inl e, a' # rest, h1)
                | Matched \<Rightarrow>
                    (case script_loop w defs rest h1 of
                       (r, rest', h') \<Rightarrow> (r, a' # rest', h'))
                | RaisesEOF \<Rightarrow>
                    (Inr [''Expected output not received.''], a' # rest, h1 @ [Close True])
                | RaisesTIMEOUT \<Rightarrow>
                    (Inr [''Timeout exceeded.''], a' # rest, h1 @ [Close True]))
           | SEND \<Rightarrow>
               (let h1 = h @ [SendLine (data a')] in
                case sendline_raises w h1 of
                  Some e \<Rightarrow> (Inl e, a' # rest, h1)
                | None \<Rightarrow>
                    (case script_loop w defs rest h1 of
                       (r, rest', h') \<Rightarrow> (r, a' # rest', h')))))"

text \<open>
  \<^verbatim>\<open>run_script(command, script, defs=None, g_timeout=None)\<close>. The result is the
  returned triple (exit status, signal status, errors) or the exception, with the
  script as the call leaves it and the history.
\<close>

definition run_script ::
  "world \<Rightarrow> string \<Rightarrow> Action list \<Rightarrow> defs_val option \<Rightarrow> int option \<Rightarrow> event list \<Rightarrow>
   (exn + int option \<times> int option \<times> string list) \<times> Action list \<times> event list" where
  "run_script w cmd scr defs g_timeout h =
     (let defs' = (case defs of None \<Rightarrow> DefsMapping [] | Some d \<Rightarrow> d);
          g = (case g_timeout of None \<Rightarrow> GLOBAL_TIMEOUT w | Some t \<Rightarrow> Some t);
          h0 = h @ [Spawn cmd g]
      in case spawn_raises w h0 of
           Some e \<Rightarrow> (Inl e, scr, h0)
         | None \<Rightarrow>
             (case script_loop w defs' (with_EOF scr) (h0 @ [SetEcho False]) of
                (Inl e, scr', h') \<Rightarrow> (Inl e, scr', h')
              | (Inr errors, scr', h') \<Rightarrow>
                  (Inr (exitstatus w h', signalstatus w h', errors), scr', h')))"

subsection \<open>\<^verbatim>\<open>TestCase.run\<close>\<close>

text \<open>
  The report of a case: the dictionary with the key \<^verbatim>\<open>"errors"\<close> and, once the suite
  has scored the case, the key \<^verbatim>\<open>"points"\<close> (\<open>None\<close>: the key is absent).
\<close>

record case_report =
  errors :: "string list"
  awarded :: "int option"

text \<open>
  Lines 242 and 243: the command line with the jail prefix,
  \<^verbatim>\<open>"fakechroot chroot %(d)s " % {"d": os.getcwd()}\<close> when \<open>jailed\<close>.
\<close>

definition jail_prefix :: "world \<Rightarrow> bool \<Rightarrow> string" where
  "jail_prefix w jailed =
     (if jailed then ''fakechroot chroot '' @ getcwd w @ '' '' else [])"

definition jailed_command :: "world \<Rightarrow> TestCase \<Rightarrow> bool \<Rightarrow> string" where
  "jailed_command w c jailed = jail_prefix w jailed @ command c"

text \<open>
  \<^verbatim>\<open>TestCase.run(defs=None, jailed=False, g_timeout=None)\<close>. Line 246 passes
  \<^verbatim>\<open>self.command\<close> and \<^verbatim>\<open>self.script\<close> to \<^verbatim>\<open>run_script\<close>; the script is the
  list object of the case, so what \<^verbatim>\<open>run_script\<close> does to it stays in the case.
  The local \<open>command\<close> of line 243 goes to the debug message only.
\<close>

definition TestCase_run ::
  "world \<Rightarrow> TestCase \<Rightarrow> defs_val option \<Rightarrow> bool \<Rightarrow> int option \<Rightarrow> event list \<Rightarrow>
   (exn + case_report) \<times> TestCase \<times> event list" where
  "TestCase_run w c defs jailed g_timeout h =
     (case run_script w (command c) (script c) defs g_timeout h of
        (Inl e, scr', h') \<Rightarrow> (Inl e, c\<lparr>script := scr'\<rparr>, h')
      | (Inr (exit_status, signal_status, errs), scr', h') \<Rightarrow>
          (Inr \<lparr>errors = errs @
                   (if exit_status \<noteq> exits c then [''Incorrect exit status.''] else []),
                awarded = None\<rparr>,
           c\<lparr>script := scr'\<rparr>, h'))"

subsection \<open>The suite\<close>

text \<open>
  An \<^verbatim>\<open>OrderedDict\<close> as an association list in insertion order with one entry per
  key: storing under a key that is present replaces the value where it stands, storing
  under a new key appends.
\<close>

fun getitem :: "(string \<times> 'v) list \<Rightarrow> string \<Rightarrow> 'v option" where
  "getitem [] k = None"
| "getitem ((k', v) # d) k = (if k' = k then Some v else getitem d k)"

fun setitem :: "(string \<times> 'v) list \<Rightarrow> string \<Rightarrow> 'v \<Rightarrow> (string \<times> 'v) list" where
  "setitem [] k v = [(k, v)]"
| "setitem ((k', v') # d) k v = (if k' = k then (k, v) # d else (k', v') # setitem d k v)"

record Calico =
  cases :: "(string \<times> TestCase) list"
  suite_points :: int

definition Calico_init :: Calico where
  "Calico_init = \<lparr>cases = [], suite_points = 0\<rparr>"

definition add_case :: "Calico \<Rightarrow> TestCase \<Rightarrow> Calico" where
  "add_case s c =
     \<lparr>cases = setitem (cases s) (name c) c,
      suite_points = suite_points s + (case points c of Some p \<Rightarrow> p | None \<Rightarrow> 0)\<rparr>"

text \<open>
  The report of a suite run: an \<^verbatim>\<open>OrderedDict\<close> from the names of the cases run to
  their reports, in which line 335 stores the earned points under \<^verbatim>\<open>"points"\<close>.
\<close>

datatype report_val = CaseReport case_report | Earned int

definition startswith :: "string \<Rightarrow> string \<Rightarrow> bool" where
  "startswith s p = (take (length p) s = p)"

text \<open>
  The loop of lines 308 to 333 over the remaining names, from the suite, the report and
  the points earned so far. Progress output is not modelled. \<^verbatim>\<open>self.get\<close> gives
  \<open>None\<close> for a name that is not in the suite, and reading an attribute of \<open>None\<close>
  raises.
\<close>

fun run_tests ::
  "world \<Rightarrow> int option \<Rightarrow> string list \<Rightarrow> Calico \<Rightarrow> (string \<times> report_val) list \<Rightarrow> int \<Rightarrow>
   event list \<Rightarrow> (exn + (string \<times> report_val) list \<times> int) \<times> Calico \<times> event list" where
  "run_tests w g [] s report earned h = (Inr (report, earned), s, h)"
| "run_tests w g (test_name # names) s report earned h =
     (case getitem (cases s) test_name of
        None \<Rightarrow> (Inl AttributeError, s, h)
      | Some test \<Rightarrow>
          (let jailed = (SUPPORTS_JAIL w \<and> startswith test_name ''case_'');
               defs = map_option (\<lambda>c. DefsObject) (getitem (cases s) ''_define_vars'')
           in case TestCase_run w test defs jailed g h of
                (Inl e, test', h') \<Rightarrow>
                  (Inl e, s\<lparr>cases := setitem (cases s) test_name test'\<rparr>, h')
              | (Inr r, test', h') \<Rightarrow>
                  (let s' = s\<lparr>cases := setitem (cases s) test_name test'\<rparr>;
                       passed = (length (errors r) = 0);
                       r' = (case points test of
                               None \<Rightarrow> r
                             | Some p \<Rightarrow> r\<lparr>awarded := Some (if passed then p else 0)\<rparr>);
                       earned' = (case points test of
                                    None \<Rightarrow> earned
                                  | Some p \<Rightarrow> earned + (if passed then p else 0));
                       report' = setitem report test_name (CaseReport r')
                   in if blocker test \<and> \<not> passed
                      then (Inr (report', earned'), s', h')
                      else run_tests w g names s' report' earned' h')))"

text \<open>
  Line 307: the names to run when \<open>tests\<close> is \<open>None\<close>. \<^verbatim>\<open>n[0]\<close> raises on an empty
  name; the comprehension is evaluated in full before the loop starts.
\<close>

definition default_names :: "Calico \<Rightarrow> exn + string list" where
  "default_names s =
     (if [] \<in> set (map fst (cases s)) then Inl IndexError
      else Inr (filter (\<lambda>n. hd n \<noteq> CHR ''_'') (map fst (cases s))))"

text \<open>\<^verbatim>\<open>Calico.run(tests=None, quiet=False, g_timeout=None)\<close>\<close>

definition Calico_run ::
  "world \<Rightarrow> Calico \<Rightarrow> string list option \<Rightarrow> int option \<Rightarrow> event list \<Rightarrow>
   (exn + (string \<times> report_val) list) \<times> Calico \<times> event list" where
  "Calico_run w s tests g h =
     (case (case tests of Some ns \<Rightarrow> Inr ns | None \<Rightarrow> default_names s) of
        Inl e \<Rightarrow> (Inl e, s, h)
      | Inr test_names \<Rightarrow>
          (case run_tests w g test_names s [] 0 h of
             (Inl e, s', h') \<Rightarrow> (Inl e, s', h')
           | (Inr (report, earned_points), s', h') \<Rightarrow>
               (Inr (setitem report ''points'' (Earned earned_points)), s', h')))"

subsection \<open>Strings\<close>

text \<open>
  A \<open>str\<close> is modelled as a list of characters with code points below 256.
  \<^verbatim>\<open>str.strip()\<close> removes leading and trailing whitespace, \<^verbatim>\<open>str.isdigit()\<close> holds
  of a non-empty string of digits, among which Python counts the superscripts
  \<open>U+00B2\<close>, \<open>U+00B3\<close> and \<open>U+00B9\<close>, which \<^verbatim>\<open>int()\<close> rejects.
\<close>

definition isspace :: "char \<Rightarrow> bool" where
  "isspace c = ((of_char c :: nat) \<in> {9, 10, 11, 12, 13, 28, 29, 30, 31, 32, 133, 160})"

definition strip :: "string \<Rightarrow> string" where
  "strip s = rev (dropWhile isspace (rev (dropWhile isspace s)))"

definition ascii_digit :: "char \<Rightarrow> bool" where
  "ascii_digit c = (48 \<le> (of_char c :: nat) \<and> (of_char c :: nat) \<le> 57)"

definition isdigit :: "string \<Rightarrow> bool" where
  "isdigit s =
     (s \<noteq> [] \<and> (\<forall>c \<in> set s. ascii_digit c \<or> (of_char c :: nat) \<in> {178, 179, 185}))"

definition int_of_str :: "string \<Rightarrow> exn + int" where
  "int_of_str s =
     (if s \<noteq> [] \<and> (\<forall>c \<in> set s. ascii_digit c)
      then Inr (foldl (\<lambda>n c. 10 * n + (int (of_char c) - 48)) 0 s)
      else Inl ValueError)"

text \<open>\<^verbatim>\<open>str(n)\<close> of an integer.\<close>

fun digits_of :: "nat \<Rightarrow> nat \<Rightarrow> string" where
  "digits_of 0 n = []"
| "digits_of (Suc fuel) n =
     (if n < 10 then [char_of (48 + n)]
      else digits_of fuel (n div 10) @ [char_of (48 + n mod 10)])"

definition str_int :: "int \<Rightarrow> string" where
  "str_int i =
     (if i < 0 then CHR ''-'' # digits_of (Suc (nat (- i))) (nat (- i))
      else digits_of (Suc (nat i)) (nat i))"

definition str_opt_int :: "int option \<Rightarrow> string" where
  "str_opt_int x = (case x of None \<Rightarrow> ''None'' | Some i \<Rightarrow> str_int i)"

subsection \<open>\<^verbatim>\<open>parse_spec\<close>\<close>

text \<open>
  What \<^verbatim>\<open>yaml.round_trip_load\<close> returns: scalars, sequences, and mappings whose
  entries carry the end-of-line comment attached to the key, if there is one
  (\<^verbatim>\<open>node.ca.items[name][2].value\<close>). Keys are strings; floating point scalars are
  outside the embedding.
\<close>

datatype yaml =
    YNull
  | YStr string
  | YInt int
  | YBool bool
  | YSeq "yaml list"
  | YMap "(string \<times> yaml \<times> string option) list"

type_synonym ymap = "(string \<times> yaml \<times> string option) list"

text \<open>\<^verbatim>\<open>dict.get(key)\<close>: \<open>None\<close> for an absent key.\<close>

fun yget :: "ymap \<Rightarrow> string \<Rightarrow> yaml" where
  "yget [] k = YNull"
| "yget ((k', v, c) # m) k = (if k' = k then v else yget m k)"

fun ycomment :: "ymap \<Rightarrow> string \<Rightarrow> string option" where
  "ycomment [] k = None"
| "ycomment ((k', v, c) # m) k = (if k' = k then c else ycomment m k)"

text \<open>\<^verbatim>\<open>get_comment_value(node, name=..., field=...)\<close>\<close>

definition get_comment_value :: "ymap \<Rightarrow> string \<Rightarrow> string \<Rightarrow> string option" where
  "get_comment_value node nm field =
     (case map_option (\<lambda>v. strip (drop 1 v)) (ycomment node nm) of
        None \<Rightarrow> None
      | Some comment \<Rightarrow>
          (let delim = field @ '':''
           in if startswith comment delim then Some (strip (drop (length delim) comment))
              else None))"

text \<open>
  Lines 88 to 91 and 129 to 132: the \<open>timeout\<close> keyword from the comment. The outer
  \<open>None\<close> is no keyword.
\<close>

definition timeout_kwarg :: "string \<Rightarrow> ymap \<Rightarrow> string \<Rightarrow> exn + int option option" where
  "timeout_kwarg test_name node nm =
     (case get_comment_value node nm ''timeout'' of
        None \<Rightarrow> Inr None
      | Some t \<Rightarrow>
          (if \<not> isdigit t
           then Inl (AssertionError (test_name @ '': timeout value must be an integer''))
           else (case int_of_str t of Inl e \<Rightarrow> Inl e | Inr i \<Rightarrow> Inr (Some (Some i)))))"

text \<open>
  Line 71: \<^verbatim>\<open>action_types\<close> maps the short and the long name of each member to it.
\<close>

definition action_types :: "string \<Rightarrow> ActionType option" where
  "action_types k =
     (if k = fst (ActionType_value EXPECT) \<or> k = snd (ActionType_value EXPECT) then Some EXPECT
      else if k = fst (ActionType_value SEND) \<or> k = snd (ActionType_value SEND) then Some SEND
      else None)"

text \<open>Lines 123 to 135: one step of a script.\<close>

definition parse_step :: "string \<Rightarrow> yaml \<Rightarrow> exn + Action" where
  "parse_step test_name step =
     (case step of
        YMap [] \<Rightarrow> Inl IndexError
      | YMap ((action_type, d, c) # others) \<Rightarrow>
          (case action_types action_type of
             None \<Rightarrow> Inl (AssertionError (test_name @ '': unknown action type''))
           | Some ty \<Rightarrow>
               (case d of
                  YStr dat \<Rightarrow>
                    (case timeout_kwarg test_name ((action_type, d, c) # others) action_type of
                       Inl e \<Rightarrow> Inl e
                     | Inr None \<Rightarrow> Inr (mk_Action ty dat (Some (- 1)))
                     | Inr (Some t) \<Rightarrow> Inr (mk_Action ty dat t))
                | _ \<Rightarrow> Inl (AssertionError (test_name @ '': action data must be a string''))))
      | _ \<Rightarrow> Inl AttributeError)"

text \<open>
  \<^verbatim>\<open>for step in script\<close>: what iterating over the value of the \<open>script\<close> field
  yields. A string yields its characters, a mapping its keys; a number is not iterable.
\<close>

fun iterate :: "yaml \<Rightarrow> exn + yaml list" where
  "iterate (YSeq xs) = Inr xs"
| "iterate (YStr s) = Inr (map (\<lambda>c. YStr [c]) s)"
| "iterate (YMap m) = Inr (map (\<lambda>e. YStr (fst e)) m)"
| "iterate v = Inl TypeError"

text \<open>Lines 122 to 135: the steps are parsed and added in order.\<close>

fun parse_steps :: "string \<Rightarrow> TestCase \<Rightarrow> yaml list \<Rightarrow> exn + TestCase" where
  "parse_steps test_name c [] = Inr c"
| "parse_steps test_name c (step # steps) =
     (case parse_step test_name step of
        Inl e \<Rightarrow> Inl e
      | Inr a \<Rightarrow> parse_steps test_name (add_action c a) steps)"

text \<open>
  Lines 83 to 112: the keyword arguments collected for the constructor. A boolean is
  an \<open>int\<close> for \<^verbatim>\<open>isinstance\<close>, with the values 1 and 0.
\<close>

record kwargs =
  kw_returns :: "int option"
  kw_timeout :: "int option option"
  kw_points :: "int option"
  kw_blocker :: "bool option"
  kw_visible :: "bool option"

definition int_field :: "string \<Rightarrow> yaml \<Rightarrow> exn + int option" where
  "int_field msg v =
     (case v of
        YNull \<Rightarrow> Inr None
      | YInt i \<Rightarrow> Inr (Some i)
      | YBool b \<Rightarrow> Inr (Some (if b then 1 else 0))
      | _ \<Rightarrow> Inl (AssertionError msg))"

definition bool_field :: "string \<Rightarrow> yaml \<Rightarrow> exn + bool option" where
  "bool_field msg v =
     (case v of
        YNull \<Rightarrow> Inr None
      | YBool b \<Rightarrow> Inr (Some b)
      | _ \<Rightarrow> Inl (AssertionError msg))"

definition parse_kwargs :: "string \<Rightarrow> ymap \<Rightarrow> exn + kwargs" where
  "parse_kwargs test_name test =
     (case int_field (test_name @ '': return value must be an integer'') (yget test ''return'') of
        Inl e \<Rightarrow> Inl e
      | Inr ret \<Rightarrow>
     (case timeout_kwarg test_name test ''run'' of
        Inl e \<Rightarrow> Inl e
      | Inr tmo \<Rightarrow>
     (case int_field (test_name @ '': points value must be numeric'') (yget test ''points'') of
        Inl e \<Rightarrow> Inl e
      | Inr pts \<Rightarrow>
     (case bool_field (test_name @ '': blocker value must be true or false'')
             (yget test ''blocker'') of
        Inl e \<Rightarrow> Inl e
      | Inr blk \<Rightarrow>
     (case bool_field (test_name @ '': visibility value must be true or false'')
             (yget test ''visible'') of
        Inl e \<Rightarrow> Inl e
      | Inr vis \<Rightarrow>
          Inr \<lparr>kw_returns = ret, kw_timeout = tmo, kw_points = pts,
               kw_blocker = blk, kw_visible = vis\<rparr>)))))"

text \<open>
  Line 114: \<^verbatim>\<open>TestCase(test_name, command=run, **kwargs)\<close>. The constructor has no
  parameter called \<open>returns\<close>, so the call raises when that keyword is present.
\<close>

definition construct_case :: "string \<Rightarrow> string \<Rightarrow> kwargs \<Rightarrow> exn + TestCase" where
  "construct_case test_name run kw =
     (case kw_returns kw of
        Some r \<Rightarrow> Inl TypeError
      | None \<Rightarrow>
          Inr (mk_TestCase test_name run (kw_timeout kw) None
                 (map_option Some (kw_points kw)) (kw_blocker kw) (kw_visible kw)))"

text \<open>Lines 77 to 135: one entry of the document.\<close>

definition parse_case :: "string \<Rightarrow> yaml \<Rightarrow> exn + TestCase" where
  "parse_case test_name test =
     (case test of
        YMap m \<Rightarrow>
          (case yget m ''run'' of
             YNull \<Rightarrow> Inl (AssertionError (test_name @ '': no run command''))
           | YStr run \<Rightarrow>
               (case parse_kwargs test_name m of
                  Inl e \<Rightarrow> Inl e
                | Inr kw \<Rightarrow>
                    (case construct_case test_name run kw of
                       Inl e \<Rightarrow> Inl e
                     | Inr c \<Rightarrow>
                         (case yget m ''script'' of
                            YNull \<Rightarrow>
                              Inr (add_action c (mk_Action EXPECT ''_EOF_'' (case_timeout c)))
                          | scr \<Rightarrow>
                              (case iterate scr of
                                 Inl e \<Rightarrow> Inl e
                               | Inr steps \<Rightarrow> parse_steps test_name c steps))))
           | _ \<Rightarrow> Inl (AssertionError (test_name @ '': run command must be a string'')))
      | _ \<Rightarrow> Inl AttributeError)"

text \<open>
  Line 75: the entries of all mappings of the document, in order; \<^verbatim>\<open>c.items()\<close>
  raises for an element that is not a mapping.
\<close>

fun all_items :: "yaml list \<Rightarrow> exn + (string \<times> yaml) list" where
  "all_items [] = Inr []"
| "all_items (YMap m # cs) =
     (case all_items cs of
        Inl e \<Rightarrow> Inl e
      | Inr ts \<Rightarrow> Inr (map (\<lambda>e. (fst e, fst (snd e))) m @ ts))"
| "all_items (c # cs) = Inl AttributeError"

fun parse_tests :: "Calico \<Rightarrow> (string \<times> yaml) list \<Rightarrow> exn + Calico" where
  "parse_tests runner [] = Inr runner"
| "parse_tests runner ((test_name, test) # tests) =
     (case parse_case test_name test of
        Inl e \<Rightarrow> Inl e
      | Inr c \<Rightarrow> parse_tests (add_case runner c) tests)"

text \<open>
  \<^verbatim>\<open>parse_spec(content)\<close>, from the outcome of \<^verbatim>\<open>yaml.round_trip_load(content)\<close>:
  the message of the \<^verbatim>\<open>YAMLError\<close>, or the loaded value.
\<close>

definition parse_spec :: "(string \<Rightarrow> string + yaml) \<Rightarrow> string \<Rightarrow> exn + Calico" where
  "parse_spec round_trip_load content =
     (case round_trip_load content of
        Inl msg \<Rightarrow> Inl (AssertionError msg)
      | Inr YNull \<Rightarrow> Inl (AssertionError ''no test specification'')
      | Inr (YSeq spec) \<Rightarrow>
          (case all_items spec of
             Inl e \<Rightarrow> Inl e
           | Inr tests \<Rightarrow> parse_tests Calico_init tests)
      | Inr other \<Rightarrow> Inl (AssertionError ''invalid test specification''))"

subsection \<open>Rendering\<close>

text \<open>
  \<^verbatim>\<open>json.dumps\<close> of a \<open>str\<close>: in quotes, with the backslash, the quote and every
  character outside the printable ASCII range escaped.
\<close>

definition hex_digit :: "nat \<Rightarrow> char" where
  "hex_digit n = (if n < 10 then char_of (48 + n) else char_of (87 + n))"

definition json_escape :: "char \<Rightarrow> string" where
  "json_escape c =
     (let n = (of_char c :: nat) in
      if n = 92 then [CHR 0x5C, CHR 0x5C]
      else if n = 34 then [CHR 0x5C, CHR 0x22]
      else if 32 \<le> n \<and> n \<le> 126 then [c]
      else if n = 8 then [CHR 0x5C, CHR ''b'']
      else if n = 12 then [CHR 0x5C, CHR ''f'']
      else if n = 10 then [CHR 0x5C, CHR ''n'']
      else if n = 13 then [CHR 0x5C, CHR ''r'']
      else if n = 9 then [CHR 0x5C, CHR ''t'']
      else [CHR 0x5C, CHR ''u'', CHR ''0'', CHR ''0'', hex_digit (n div 16), hex_digit (n mod 16)])"

definition dumps :: "string \<Rightarrow> string" where
  "dumps s = [CHR 0x22] @ concat (map json_escape s) @ [CHR 0x22]"

text \<open>
  \<^verbatim>\<open>Action.__iter__\<close> and \<^verbatim>\<open>Action.__str__\<close>.
\<close>

definition Action_iter :: "Action \<Rightarrow> string \<times> string \<times> int option" where
  "Action_iter a =
     (snd (ActionType_value (atype a)),
      (case data a of EOF \<Rightarrow> ''_EOF_'' | Str s \<Rightarrow> s),
      timeout a)"

definition Action_str :: "Action \<Rightarrow> string" where
  "Action_str a =
     (case Action_iter a of
        (action_type, action_data, tmo) \<Rightarrow>
          (let tmo' = (if tmo = Some (- 1) then [] else ''# timeout: '' @ str_opt_int tmo);
               action_data' = (if action_data \<noteq> ''_EOF_'' then dumps action_data
                               else action_data)
           in ''- '' @ action_type @ '': '' @ action_data' @ '' '' @ tmo' @ [CHR 0x0A]))"

text \<open>
  \<^verbatim>\<open>textwrap.indent(text, prefix)\<close> on a text whose only line boundary is the
  newline: the prefix goes before every line that is not blank.
\<close>

fun splitlines_keepends :: "string \<Rightarrow> string list" where
  "splitlines_keepends [] = []"
| "splitlines_keepends (c # cs) =
     (if c = CHR 0x0A then [c] # splitlines_keepends cs
      else (case splitlines_keepends cs of
              [] \<Rightarrow> [[c]]
            | l # ls \<Rightarrow> (c # l) # ls))"

definition indent :: "string \<Rightarrow> string \<Rightarrow> string" where
  "indent text prefix =
     concat (map (\<lambda>line. if strip line \<noteq> [] then prefix @ line else line)
               (splitlines_keepends text))"

text \<open>
  \<^verbatim>\<open>textwrap.dedent(text)\<close>: lines of blanks and tabs only are emptied, the margin
  is the longest common leading run of blanks and tabs of the lines that have another
  character, and it is removed from every line that starts with it.
\<close>

fun split_newline :: "string \<Rightarrow> string list" where
  "split_newline [] = [[]]"
| "split_newline (c # cs) =
     (if c = CHR 0x0A then [] # split_newline cs
      else (case split_newline cs of
              [] \<Rightarrow> [[c]]
            | l # ls \<Rightarrow> (c # l) # ls))"

fun join_newline :: "string list \<Rightarrow> string" where
  "join_newline [] = []"
| "join_newline [l] = l"
| "join_newline (l # ls) = l @ [CHR 0x0A] @ join_newline ls"

definition blank :: "char \<Rightarrow> bool" where
  "blank c = (c = CHR '' '' \<or> c = CHR 0x09)"

fun common_prefix :: "string \<Rightarrow> string \<Rightarrow> string" where
  "common_prefix (x # xs) (y # ys) = (if x = y then x # common_prefix xs ys else [])"
| "common_prefix xs ys = []"

definition next_margin :: "string option \<Rightarrow> string \<Rightarrow> string option" where
  "next_margin margin ind =
     (case margin of
        None \<Rightarrow> Some ind
      | Some m \<Rightarrow>
          (if startswith ind m then Some m
           else if startswith m ind then Some ind
           else Some (common_prefix m ind)))"

definition dedent :: "string \<Rightarrow> string" where
  "dedent text =
     (let lines = map (\<lambda>l. if l \<noteq> [] \<and> (\<forall>c \<in> set l. blank c) then [] else l)
                    (split_newline text);
          indents = map (takeWhile blank) (filter (\<lambda>l. dropWhile blank l \<noteq> []) lines);
          margin = foldl next_margin None indents
      in case margin of
           None \<Rightarrow> join_newline lines
         | Some m \<Rightarrow>
             (if m = [] then join_newline lines
              else join_newline
                     (map (\<lambda>l. if startswith l m then drop (length m) l else l) lines)))"

text \<open>\<^verbatim>\<open>TestCase.__str__\<close>\<close>

definition TestCase_str :: "TestCase \<Rightarrow> string" where
  "TestCase_str c =
     (let scr = indent ([CHR 0x0A] @ concat (map Action_str (script c))) (replicate 16 CHR '' '');
          spec = [CHR 0x0A] @
            ''        - '' @ name c @ '':'' @ [CHR 0x0A] @
            ''            run: '' @ command c @ [CHR 0x0A] @
            ''            script: '' @ scr @ [CHR 0x0A] @
            ''            return: '' @ str_opt_int (exits c) @ [CHR 0x0A] @
            ''            points: '' @ str_opt_int (points c) @ [CHR 0x0A] @
            ''        ''
      in dedent spec)"

text \<open>\<^verbatim>\<open>Calico.__str__\<close>: the renderings of the cases, joined by newlines.\<close>

definition Calico_str :: "Calico \<Rightarrow> string" where
  "Calico_str s = join_newline (map (\<lambda>e. TestCase_str (snd e)) (cases s))"

subsection \<open>Timeouts of a history\<close>

text \<open>
  The patterns awaited in a history, each with the timeout \<^verbatim>\<open>pexpect\<close> runs the
  match with: the argument of the call, resolved against the timeout of the process
  spawned last.
\<close>

fun used_timeouts :: "int option \<Rightarrow> event list \<Rightarrow> (pdata \<times> int option) list" where
  "used_timeouts cur [] = []"
| "used_timeouts cur (Spawn c t # es) = used_timeouts t es"
| "used_timeouts cur (Expect p t # es) = (p, match_timeout cur t) # used_timeouts cur es"
| "used_timeouts cur (e # es) = used_timeouts cur es"

text \<open>
  The timeout of an \<open>Expect\<close> as the specification words it: the action's own when it
  is set, otherwise the timeout of the case when that is set, otherwise the global one.
  Unset is \<open>-1\<close>, the default of both constructors.
\<close>

definition spec_timeout :: "int option \<Rightarrow> TestCase \<Rightarrow> Action \<Rightarrow> int option" where
  "spec_timeout global c a =
     (if timeout a \<noteq> Some (- 1) then timeout a
      else if case_timeout c \<noteq> Some (- 1) then case_timeout c
      else global)"

subsection \<open>A world for the examples\<close>

text \<open>
  Python's \<^verbatim>\<open>str % mapping\<close> on the directives \<^verbatim>\<open>%%\<close> and \<^verbatim>\<open>%(key)s\<close>. A string
  that ends inside a directive is a \<open>ValueError\<close>, a key that the mapping lacks a
  \<open>KeyError\<close>. Any other directive is answered with \<open>ValueError\<close> here, which is what
  Python does for an unknown conversion only; the examples use no other directive.
\<close>

datatype fstate = Plain | Percent | Key nat string | Conv string

definition prepend :: "string \<Rightarrow> exn + string \<Rightarrow> exn + string" where
  "prepend p r = (case r of Inl e \<Rightarrow> Inl e | Inr s \<Rightarrow> Inr (p @ s))"

fun format_keys :: "fstate \<Rightarrow> (string \<times> string) list \<Rightarrow> string \<Rightarrow> exn + string" where
  "format_keys Plain m [] = Inr []"
| "format_keys Plain m (c # cs) =
     (if c = CHR ''%'' then format_keys Percent m cs else prepend [c] (format_keys Plain m cs))"
| "format_keys Percent m [] = Inl ValueError"
| "format_keys Percent m (c # cs) =
     (if c = CHR ''%'' then prepend [c] (format_keys Plain m cs)
      else if c = CHR ''('' then format_keys (Key 0 []) m cs
      else Inl ValueError)"
| "format_keys (Key d k) m [] = Inl ValueError"
| "format_keys (Key d k) m (c # cs) =
     (if c = CHR '')'' then
        (if d = 0 then (case getitem m k of
                          None \<Rightarrow> Inl KeyError
                        | Some v \<Rightarrow> format_keys (Conv v) m cs)
         else format_keys (Key (d - 1) (k @ [c])) m cs)
      else if c = CHR ''('' then format_keys (Key (d + 1) (k @ [c])) m cs
      else format_keys (Key d (k @ [c])) m cs)"
| "format_keys (Conv v) m [] = Inl ValueError"
| "format_keys (Conv v) m (c # cs) =
     (if c = CHR ''s'' then prepend v (format_keys Plain m cs) else Inl ValueError)"

text \<open>The events since the last spawn, and the command spawned last.\<close>

fun is_Spawn :: "event \<Rightarrow> bool" where
  "is_Spawn (Spawn c t) = True"
| "is_Spawn e = False"

definition current_run :: "event list \<Rightarrow> event list" where
  "current_run h = rev (takeWhile (\<lambda>e. \<not> is_Spawn e) (rev h))"

definition last_command :: "event list \<Rightarrow> string" where
  "last_command h =
     (case dropWhile (\<lambda>e. \<not> is_Spawn e) (rev h) of
        Spawn c t # es \<Rightarrow> c
      | _ \<Rightarrow> [])"

fun awaits :: "string \<Rightarrow> event \<Rightarrow> bool" where
  "awaits s (Expect (Str p) t) = (p = s)"
| "awaits s e = False"

text \<open>
  The children of the examples print whatever is awaited at once, except that nothing
  ever prints \<^verbatim>\<open>never\<close>, and that the output ends before \<^verbatim>\<open>gone\<close> is printed. The
  command \<^verbatim>\<open>false\<close> exits with status 1 and every other command with status 0; a child
  that was closed while the runner waited for \<^verbatim>\<open>never\<close> was killed by signal 9. A
  formatting operand that is not a mapping is a \<open>TypeError\<close>, as it is in Python for
  strings without a directive.
\<close>

definition demo_reaction :: "event list \<Rightarrow> reaction" where
  "demo_reaction h =
     (case rev h of
        Expect (Str s) t # es \<Rightarrow>
          (if s = ''never'' then TimedOut else if s = ''gone'' then Closed else Found)
      | _ \<Rightarrow> Closed)"

definition demo_world :: world where
  "demo_world =
     \<lparr>GLOBAL_TIMEOUT = Some 2,
      SUPPORTS_JAIL = True,
      getcwd = ''/tmp'',
      fmt = (\<lambda>s m. format_keys Plain m s),
      fmt_object = (\<lambda>h s. Inl TypeError),
      spawn_raises = (\<lambda>h. None),
      reaction = demo_reaction,
      sendline_raises = (\<lambda>h. None),
      exitstatus = (\<lambda>h. if list_ex (awaits ''never'') (current_run h) then None
                         else if last_command h = ''false'' then Some 1 else Some 0),
      signalstatus = (\<lambda>h. if list_ex (awaits ''never'') (current_run h) then Some 9
                           else None)\<rparr>"

subsection \<open>Example cases\<close>

text \<open>
  A case with a timeout of its own (\<^verbatim>\<open>run: prog  # timeout: 5\<close>) whose one step has
  none, and a case whose script ends in a \<open>send\<close>.
\<close>

definition timed_case :: TestCase where
  "timed_case =
     \<lparr>name = ''case_1'', command = ''prog'',
      script = [mk_Action EXPECT ''hello'' (Some (- 1))],
      case_timeout = Some 5, exits = Some 0, points = None, blocker = False,
      visible = True\<rparr>"


text \<open>
  A case that passes in the example world, with a name and points to choose, and a
  blocker that fails there: nothing prints what it waits for.
\<close>

definition passing_case :: "string \<Rightarrow> int option \<Rightarrow> TestCase" where
  "passing_case n p =
     \<lparr>name = n, command = ''prog'',
      script = [mk_Action EXPECT ''hello'' (Some (- 1)), mk_Action EXPECT ''_EOF_'' (Some (- 1))],
      case_timeout = Some (- 1), exits = Some 0, points = p, blocker = False,
      visible = True\<rparr>"

definition failing_blocker :: TestCase where
  "failing_blocker =
     \<lparr>name = ''first'', command = ''prog'',
      script = [mk_Action EXPECT ''never'' (Some (- 1)), mk_Action EXPECT ''_EOF_'' (Some (- 1))],
      case_timeout = Some (- 1), exits = Some 0, points = Some 3, blocker = True,
      visible = True\<rparr>"

text \<open>A suite of the failing blocker and a case after it.\<close>

definition demo_suite :: Calico where
  "demo_suite = add_case (add_case Calico_init failing_blocker) (passing_case ''second'' (Some 2))"

subsection \<open>Scoring\<close>



subsection \<open>Example documents\<close>

text \<open>
  The document
  \<^verbatim>\<open>- case_1: {run: ls, return: 1}\<close>
  as \<^verbatim>\<open>yaml.round_trip_load\<close> returns it, and a suite with its rendering: the text of
  \<^verbatim>\<open>str(suite)\<close> and what the loader makes of that text.
\<close>

definition return_document :: yaml where
  "return_document =
     YSeq [YMap [(''case_1'', YMap [(''run'', YStr ''ls'', None),
                                    (''return'', YInt 1, None)], None)]]"

definition rendered_suite :: Calico where
  "rendered_suite =
     add_case Calico_init
       \<lparr>name = ''case_1'', command = ''ls'',
        script = [mk_Action EXPECT ''hello'' (Some 5), mk_Action SEND ''hi'' (Some (- 1)),
                  mk_Action EXPECT ''_EOF_'' (Some (- 1))],
        case_timeout = Some (- 1), exits = Some 0, points = Some 1, blocker = True,
        visible = True\<rparr>"

definition rendered_text :: string where
  "rendered_text =
     [CHR 0x0A] @ ''- case_1:'' @ [CHR 0x0A] @
     ''    run: ls'' @ [CHR 0x0A] @
     ''    script: '' @ [CHR 0x0A] @
     ''        - expect: '' @ [CHR 0x22] @ ''hello'' @ [CHR 0x22] @ '' # timeout: 5'' @ [CHR 0x0A] @
     ''        - send: '' @ [CHR 0x22] @ ''hi'' @ [CHR 0x22] @ '' '' @ [CHR 0x0A] @
     ''        - expect: _EOF_ '' @ [CHR 0x0A] @
     [CHR 0x0A] @
     ''    return: 0'' @ [CHR 0x0A] @
     ''    points: 1'' @ [CHR 0x0A]"

definition rendered_document :: yaml where
  "rendered_document =
     YSeq [YMap [(''case_1'',
                  YMap [(''run'', YStr ''ls'', None),
                        (''script'',
                         YSeq [YMap [(''expect'', YStr ''hello'', Some (''# timeout: 5'' @ [CHR 0x0A]))],
                               YMap [(''send'', YStr ''hi'', None)],
                               YMap [(''expect'', YStr ''_EOF_'', None)]], None),
                        (''return'', YInt 0, None),
                        (''points'', YInt 1, None)], None)]]"

section \<open>Properties\<close>

subsection \<open>The script loop\<close>






lemma script_loop_history:
  "script_loop w defs scr h = (r, scr', h') \<Longrightarrow> \<exists>evs. h' = h @ evs"
proof (induction scr arbitrary: h r scr' h')
  case Nil
  then show ?case by auto
next
  case (Cons a rest)
  have step: "\<exists>evs. h' = h @ evs"
    if "script_loop w defs rest (h @ [e]) = (r1, rest1, h')" for e r1 rest1
    using Cons.IH [OF that] by auto
  from Cons.prems show ?case
    by (auto simp: Let_def dest: step
             split: sum.splits ActionType.splits outcome.splits option.splits prod.splits)
qed

lemma run_script_history:
  "\<exists>evs. snd (snd (run_script w cmd scr defs g_timeout h)) =
     h @ Spawn cmd (case g_timeout of None \<Rightarrow> GLOBAL_TIMEOUT w | Some t \<Rightarrow> Some t) # evs"
proof -
  let ?g = "case g_timeout of None \<Rightarrow> GLOBAL_TIMEOUT w | Some t \<Rightarrow> Some t"
  let ?d = "case defs of None \<Rightarrow> DefsMapping [] | Some d \<Rightarrow> d"
  let ?h0 = "h @ [Spawn cmd ?g]"
  show ?thesis
  proof (cases "spawn_raises w ?h0")
    case (Some e)
    then show ?thesis by (simp add: run_script_def)
  next
    case None
    obtain r scr' h' where
      l: "script_loop w ?d (with_EOF scr) (?h0 @ [SetEcho False]) = (r, scr', h')"
      by (cases "script_loop w ?d (with_EOF scr) (?h0 @ [SetEcho False])") auto
    from script_loop_history [OF l] obtain evs where "h' = (?h0 @ [SetEcho False]) @ evs"
      by blast
    with None l show ?thesis
      by (cases r) (auto simp: run_script_def Let_def)
  qed
qed

lemma demo_sel [simp]:
  "GLOBAL_TIMEOUT demo_world = Some 2" "SUPPORTS_JAIL demo_world = True"
  "getcwd demo_world = ''/tmp''"
  "fmt demo_world = (\<lambda>s m. format_keys Plain m s)"
  "fmt_object demo_world = (\<lambda>h s. Inl TypeError)"
  "spawn_raises demo_world = (\<lambda>h. None)" "reaction demo_world = demo_reaction"
  "sendline_raises demo_world = (\<lambda>h. None)"
  "exitstatus demo_world = (\<lambda>h. if list_ex (awaits ''never'') (current_run h) then None
                         else if last_command h = ''false'' then Some 1 else Some 0)"
  "signalstatus demo_world = (\<lambda>h. if list_ex (awaits ''never'') (current_run h) then Some 9
                           else None)"
  by (simp_all add: demo_world_def)

lemmas demo_eval = run_script_def with_EOF_def appends_EOF_def mk_Action_def subst_action_def
  substitute_def prepend_def demo_reaction_def current_run_def last_command_def
  TestCase_run_def Let_def


subsection \<open>The end-of-output expectation\<close>

lemma with_EOF_idem: "with_EOF (with_EOF scr) = with_EOF scr"
  by (simp add: with_EOF_def appends_EOF_def mk_Action_def)

lemma appends_EOF_iff:
  "appends_EOF scr \<longleftrightarrow>
     scr = [] \<or> atype (last scr) = SEND \<and> data (last scr) \<noteq> Str ''_EOF_''"
  by (cases "atype (last scr)") (auto simp: appends_EOF_def)

lemma with_EOF_after_Expect:
  "scr \<noteq> [] \<Longrightarrow> atype (last scr) = EXPECT \<Longrightarrow> with_EOF scr = scr"
  by (simp add: with_EOF_def appends_EOF_def)

lemma run_script_explicit_EOF:
  "fst (run_script w cmd (with_EOF scr) defs g_timeout h) =
     fst (run_script w cmd scr defs g_timeout h) \<and>
   snd (snd (run_script w cmd (with_EOF scr) defs g_timeout h)) =
     snd (snd (run_script w cmd scr defs g_timeout h))"
  by (simp add: run_script_def with_EOF_idem Let_def split: option.splits prod.splits sum.splits)

text \<open>
  Claim C1. For every script whose last action is not an \<open>Expect\<close> of the end-of-output
  sentinel, \<^verbatim>\<open>run_script\<close> appends an end-of-output \<open>Expect\<close> before executing any
  action. The code does not do so for a script that ends in an \<open>Expect\<close> of text: the
  condition of line 105 requires the last action not to be an \<open>Expect\<close> at all. Run on
  the script \<^verbatim>\<open>[expect "hello"]\<close> against a child that prints \<^verbatim>\<open>hello\<close>, the runner
  waits for \<^verbatim>\<open>hello\<close>, closes the session and returns; it never waits for the end of
  the output, and the script it leaves has no end-of-output action.
\<close>

theorem final_expect_of_text_gets_no_end_of_output:
  "run_script demo_world ''prog'' [mk_Action EXPECT ''hello'' (Some (- 1))] None None [] =
     (Inr (Some 0, None, []),
      [mk_Action EXPECT ''hello'' (Some (- 1))],
      [Spawn ''prog'' (Some 2), SetEcho False, Expect (Str ''hello'') (Some (- 1)),
       Close True])"
  by (simp add: demo_eval)


subsection \<open>Failures of an expectation\<close>




subsection \<open>The exit status\<close>

text \<open>
  Claim C5. For every run of a test case, if the exit status returned by the script
  runner differs from the expected exit status of the case, the string
  \<^verbatim>\<open>"Incorrect exit status."\<close> is appended to the error list after the errors of the
  script, which stay; if the statuses are equal, it is not appended.
\<close>

theorem incorrect_exit_status_is_appended:
  assumes "run_script w (command c) (script c) defs g_timeout h =
             (Inr (exit_status, signal_status, errs), scr', h')"
  shows "\<exists>r c'. TestCase_run w c defs jailed g_timeout h = (Inr r, c', h') \<and>
           errors r = (if exit_status \<noteq> exits c then errs @ [''Incorrect exit status.'']
                       else errs)"
  using assms by (simp add: TestCase_run_def)


theorem incorrect_exit_status_is_appended_witness:
  "\<exists>r c'. TestCase_run demo_world
       \<lparr>name = ''t'', command = ''false'', script = [mk_Action EXPECT ''gone'' (Some (- 1))],
        case_timeout = Some (- 1), exits = Some 0, points = None, blocker = False,
        visible = True\<rparr> None False None [] =
       (Inr r, c', [Spawn ''false'' (Some 2), SetEcho False,
                    Expect (Str ''gone'') (Some (- 1)), Close True]) \<and>
     errors r = [''Expected output not received.'', ''Incorrect exit status.'']"
proof -
  let ?c = "\<lparr>name = ''t'', command = ''false'', script = [mk_Action EXPECT ''gone'' (Some (- 1))],
        case_timeout = Some (- 1), exits = Some 0, points = None, blocker = False,
        visible = True\<rparr>"
  have "run_script demo_world (command ?c) (script ?c) None None [] =
      (Inr (Some 1, None, [''Expected output not received.'']),
       [mk_Action EXPECT ''gone'' (Some (- 1))],
       [Spawn ''false'' (Some 2), SetEcho False, Expect (Str ''gone'') (Some (- 1)), Close True])"
    by (simp add: demo_eval)
  from incorrect_exit_status_is_appended [OF this, of False] show ?thesis
    by simp
qed


subsection \<open>The command that is run\<close>

text \<open>
  Claim C8. With sandboxing enabled, the command delegated to the script runner is the
  command of the case prefixed by the sandbox wrapper. The code builds that command
  line (\<open>jailed_command\<close>) for its debug message, and spawns the command of the case
  itself, whatever \<open>jailed\<close> is: the first call of every run is
  \<^verbatim>\<open>pexpect.spawn(self.command, ...)\<close>, and the prefixed command line differs from it.
\<close>

theorem run_spawns_the_command_without_jail_prefix:
  "(\<exists>evs. snd (snd (TestCase_run w c defs jailed g_timeout h)) =
       h @ Spawn (command c)
             (case g_timeout of None \<Rightarrow> GLOBAL_TIMEOUT w | Some t \<Rightarrow> Some t) # evs) \<and>
   jailed_command w c True \<noteq> command c"
proof -
  let ?g = "case g_timeout of None \<Rightarrow> GLOBAL_TIMEOUT w | Some t \<Rightarrow> Some t"
  obtain r scr' h' where
    rs: "run_script w (command c) (script c) defs g_timeout h = (r, scr', h')"
    by (cases "run_script w (command c) (script c) defs g_timeout h") auto
  from run_script_history [of w "command c" "script c" defs g_timeout h] rs
  obtain evs where "h' = h @ Spawn (command c) ?g # evs" by auto
  with rs have "snd (snd (TestCase_run w c defs jailed g_timeout h)) =
      h @ Spawn (command c) ?g # evs"
    by (cases r) (auto simp: TestCase_run_def split: prod.splits)
  moreover have "jailed_command w c True \<noteq> command c"
    by (simp add: jailed_command_def jail_prefix_def)
  ultimately show ?thesis by blast
qed

subsection \<open>The timeout of an expectation\<close>

lemma script_loop_timeouts:
  "script_loop w defs scr h = (r, scr', h') \<Longrightarrow>
   \<exists>k evs. h' = h @ evs \<and>
     used_timeouts g evs =
       map (\<lambda>a. (data a, match_timeout g (timeout a)))
         (filter (\<lambda>a. atype a = EXPECT) (take k scr'))"
proof (induction scr arbitrary: h r scr' h')
  case Nil
  then show ?case by auto
next
  case (Cons a rest)
  let ?P = "\<lambda>h' scr'. \<exists>k evs. h' = h @ evs \<and>
     used_timeouts g evs =
       map (\<lambda>a. (data a, match_timeout g (timeout a)))
         (filter (\<lambda>a. atype a = EXPECT) (take k scr'))"
  have stop: "?P (h @ evs) scr'" if "used_timeouts g evs = []" for evs and scr' :: "Action list"
    using that by (intro exI [of _ 0] exI [of _ evs]) simp
  have stop1: "?P (h @ Expect (data a') (timeout a') # evs) (a' # rest')"
    if "used_timeouts g evs = []" "atype a' = EXPECT"
    for evs and a' :: Action and rest' :: "Action list"
    using that
    by (intro exI [of _ "Suc 0"] exI [of _ "Expect (data a') (timeout a') # evs"]) simp
  have go: "?P h1 (a' # rest1)"
    if "script_loop w defs rest (h @ [e]) = (r1, rest1, h1)"
      and "atype a' = EXPECT \<and> e = Expect (data a') (timeout a') \<or>
           atype a' = SEND \<and> e = SendLine (data a')"
    for e r1 rest1 h1 a'
  proof -
    from Cons.IH [OF that(1)] obtain k evs where
      k: "h1 = (h @ [e]) @ evs"
         "used_timeouts g evs = map (\<lambda>a. (data a, match_timeout g (timeout a)))
            (filter (\<lambda>a. atype a = EXPECT) (take k rest1))"
      by blast
    show ?thesis
      using that(2) by (intro exI [of _ "Suc k"] exI [of _ "e # evs"]) (auto simp: k)
  qed
  show ?case
  proof (cases "subst_action w h defs a")
    case (Inl e)
    with Cons.prems stop [of "[]"] show ?thesis by auto
  next
    case (Inr a')
    show ?thesis
    proof (cases "atype a'")
      case EXPECT
      with Cons.prems Inr go [of "Expect (data a') (timeout a')" _ _ _ a']
        stop1 [of "[]" a'] stop1 [of "[Close True]" a']
      show ?thesis
        by (auto simp: Let_def split: outcome.splits prod.splits)
    next
      case SEND
      with Cons.prems Inr go [of "SendLine (data a')" _ _ _ a']
        stop [of "[SendLine (data a')]"]
      show ?thesis
        by (auto simp: Let_def split: option.splits prod.splits)
    qed
  qed
qed

text \<open>
  Claim C2, as the code has it. For every \<open>Expect\<close> action executed in the run of a
  test case, the timeout of the match is the action's own timeout when one is set (it
  is not \<open>-1\<close>); otherwise it is the global timeout given to the run, or
  \<open>GLOBAL_TIMEOUT\<close> when none is given. The timeout of the case plays no part.

  The patterns awaited in the events of the run, with their timeouts, are those of the
  \<open>Expect\<close> actions among the first \<open>k\<close> actions of the script (the ones the loop
  reached), each with its own timeout or the global one.
\<close>

theorem expect_timeout_is_own_or_global:
  assumes "TestCase_run w c defs jailed g_timeout h = (r, c', h')"
  shows "\<exists>k. used_timeouts None (drop (length h) h') =
           map (\<lambda>a. (data a,
                      if timeout a \<noteq> Some (- 1) then timeout a
                      else (case g_timeout of None \<Rightarrow> GLOBAL_TIMEOUT w | Some t \<Rightarrow> Some t)))
             (filter (\<lambda>a. atype a = EXPECT) (take k (script c')))"
proof -
  let ?g = "case g_timeout of None \<Rightarrow> GLOBAL_TIMEOUT w | Some t \<Rightarrow> Some t"
  let ?d = "case defs of None \<Rightarrow> DefsMapping [] | Some d \<Rightarrow> d"
  let ?h0 = "h @ [Spawn (command c) ?g]"
  let ?f = "\<lambda>a. (data a, if timeout a \<noteq> Some (- 1) then timeout a else ?g)"
  have f: "(\<lambda>a. (data a, match_timeout ?g (timeout a))) = ?f"
    by (auto simp: match_timeout_def fun_eq_iff)
  show ?thesis
  proof (cases "spawn_raises w ?h0")
    case (Some e)
    with assms have "h' = ?h0" by (auto simp: TestCase_run_def run_script_def)
    then show ?thesis by (intro exI [of _ 0]) simp
  next
    case None
    obtain r1 scr1 h1 where
      l: "script_loop w ?d (with_EOF (script c)) (?h0 @ [SetEcho False]) = (r1, scr1, h1)"
      by (cases "script_loop w ?d (with_EOF (script c)) (?h0 @ [SetEcho False])") auto
    from assms None l have eq: "h' = h1" "script c' = scr1"
      by (cases r1; auto simp: TestCase_run_def run_script_def Let_def)+
    from script_loop_timeouts [OF l, of ?g] obtain k evs where
      k: "h1 = (?h0 @ [SetEcho False]) @ evs"
         "used_timeouts ?g evs = map ?f (filter (\<lambda>a. atype a = EXPECT) (take k scr1))"
      unfolding f by blast
    show ?thesis
      by (intro exI [of _ k]) (simp add: eq k)
  qed
qed

theorem expect_timeout_is_own_or_global_witness:
  "used_timeouts None
     (snd (snd (TestCase_run demo_world
        (timed_case\<lparr>script := [mk_Action EXPECT ''hello'' (Some 7),
                               mk_Action EXPECT ''_EOF_'' (Some (- 1))]\<rparr>)
        None False (Some 3) []))) =
   [(Str ''hello'', Some 7), (EOF, Some 3)]"
proof -
  let ?c = "timed_case\<lparr>script := [mk_Action EXPECT ''hello'' (Some 7),
                               mk_Action EXPECT ''_EOF_'' (Some (- 1))]\<rparr>"
  have run: "TestCase_run demo_world ?c None False (Some 3) [] =
      (Inr \<lparr>errors = [], awarded = None\<rparr>, ?c,
       [Spawn ''prog'' (Some 3), SetEcho False, Expect (Str ''hello'') (Some 7),
        Expect EOF (Some (- 1)), Close True])"
    by (simp add: demo_eval timed_case_def)
  from expect_timeout_is_own_or_global [OF run] show ?thesis
    by (simp add: run match_timeout_def)
qed

text \<open>
  Claim C2, as it is stated: the timeout of the case comes before the global default.
  The case \<open>timed_case\<close> has the timeout 5 and one \<open>Expect\<close> without a timeout; run
  with the global default 2, the match has the timeout 2 and not 5.
\<close>

theorem case_timeout_is_not_used:
  "used_timeouts None (snd (snd (TestCase_run demo_world timed_case None False None []))) =
     [(Str ''hello'', Some 2)] \<and>
   used_timeouts None (snd (snd (TestCase_run demo_world timed_case None False None []))) \<noteq>
     [(Str ''hello'',
       spec_timeout (GLOBAL_TIMEOUT demo_world) timed_case
         (mk_Action EXPECT ''hello'' (Some (- 1))))]"
  by (simp add: demo_eval timed_case_def spec_timeout_def match_timeout_def)

subsection \<open>What a run does to the script of the case\<close>





subsection \<open>The run of a suite\<close>

lemma getitem_setitem:
  "getitem (setitem d k v) k' = (if k' = k then Some v else getitem d k')"
  by (induction d) auto

lemma TestCase_run_history:
  "\<exists>evs. snd (snd (TestCase_run w c defs jailed g_timeout h)) =
     h @ Spawn (command c)
           (case g_timeout of None \<Rightarrow> GLOBAL_TIMEOUT w | Some t \<Rightarrow> Some t) # evs"
proof -
  let ?g = "case g_timeout of None \<Rightarrow> GLOBAL_TIMEOUT w | Some t \<Rightarrow> Some t"
  obtain r scr' h' where
    rs: "run_script w (command c) (script c) defs g_timeout h = (r, scr', h')"
    by (cases "run_script w (command c) (script c) defs g_timeout h") auto
  from run_script_history [of w "command c" "script c" defs g_timeout h] rs
  obtain evs where "h' = h @ Spawn (command c) ?g # evs" by auto
  with rs show ?thesis
    by (cases r) (auto simp: TestCase_run_def split: prod.splits)
qed

lemma run_tests_history:
  "\<exists>evs. snd (snd (run_tests w g ns s report earned h)) = h @ evs"
proof (induction ns arbitrary: s report earned h)
  case Nil
  show ?case by simp
next
  case (Cons n ns)
  show ?case
  proof (cases "getitem (cases s) n")
    case None
    then show ?thesis by simp
  next
    case (Some test)
    let ?run = "TestCase_run w test (map_option (\<lambda>c. DefsObject) (getitem (cases s) ''_define_vars''))
                  (SUPPORTS_JAIL w \<and> startswith n ''case_'') g h"
    obtain x test' h1 where run: "?run = (x, test', h1)" by (cases ?run) auto
    from TestCase_run_history [of w test _ _ g h] run obtain evs where h1: "h1 = h @ evs"
      by (metis snd_conv)
    have step: "\<exists>evs. snd (snd (run_tests w g ns s1 rep1 e1 h1)) = h @ evs" for s1 rep1 e1
      using Cons.IH [of s1 rep1 e1 h1] by (auto simp: h1)
    from Some run h1 step show ?thesis
      by (cases x) (auto simp: Let_def)
  qed
qed

lemma run_tests_first_spawn:
  assumes "getitem (cases s) n = Some test"
  shows "\<exists>evs. snd (snd (run_tests w g (n # ns) s report earned h)) =
           h @ Spawn (command test) (case g of None \<Rightarrow> GLOBAL_TIMEOUT w | Some t \<Rightarrow> Some t) # evs"
proof -
  let ?g = "case g of None \<Rightarrow> GLOBAL_TIMEOUT w | Some t \<Rightarrow> Some t"
  let ?run = "TestCase_run w test (map_option (\<lambda>c. DefsObject) (getitem (cases s) ''_define_vars''))
                (SUPPORTS_JAIL w \<and> startswith n ''case_'') g h"
  obtain x test' h1 where run: "?run = (x, test', h1)" by (cases ?run) auto
  from TestCase_run_history [of w test _ _ g h] run obtain evs where
    h1: "h1 = h @ Spawn (command test) ?g # evs"
    by (metis snd_conv)
  have step: "\<exists>evs. snd (snd (run_tests w g ns s1 rep1 e1 h1)) =
                h @ Spawn (command test) ?g # evs" for s1 rep1 e1
    using run_tests_history [of w g ns s1 rep1 e1 h1] by (auto simp: h1)
  from assms run h1 step show ?thesis
    by (cases x) (auto simp: Let_def)
qed

text \<open>
  Claim C3. In every run of a suite, after a case that is a blocker and has failed (its
  error list is not empty) no later case is executed and the later cases have no entry
  in the report; after a failed case that is not a blocker the following cases are
  still executed.

  The loop stands before the case \<open>n\<close>, with the names \<open>later\<close> after it, and the run
  of \<open>n\<close> returns the report \<open>r\<close> and the history \<open>h'\<close>. If the case is a blocker
  and \<open>r\<close> has errors, the loop ends there: the history of the whole run is \<open>h'\<close>, and
  the report differs from the one before only under the name \<open>n\<close>. Otherwise the loop
  goes on with the names \<open>later\<close>, and the next thing that happens is the spawn of the
  command of the following case.
\<close>

theorem blocker_failure_stops_the_suite:
  assumes found: "getitem (cases s) n = Some test"
    and run: "TestCase_run w test
                (map_option (\<lambda>c. DefsObject) (getitem (cases s) ''_define_vars''))
                (SUPPORTS_JAIL w \<and> startswith n ''case_'') g h = (Inr r, test', h')"
    and s': "s' = s\<lparr>cases := setitem (cases s) n test'\<rparr>"
    and r': "r' = (case points test of
                    None \<Rightarrow> r
                  | Some p \<Rightarrow> r\<lparr>awarded := Some (if errors r = [] then p else 0)\<rparr>)"
    and earned': "earned' = (case points test of
                              None \<Rightarrow> earned
                            | Some p \<Rightarrow> earned + (if errors r = [] then p else 0))"
  shows "(blocker test \<and> errors r \<noteq> [] \<longrightarrow>
            run_tests w g (n # later) s report earned h =
              (Inr (setitem report n (CaseReport r'), earned'), s', h') \<and>
            (\<forall>m. m \<noteq> n \<longrightarrow>
               getitem (setitem report n (CaseReport r')) m = getitem report m)) \<and>
         (\<not> (blocker test \<and> errors r \<noteq> []) \<longrightarrow>
            run_tests w g (n # later) s report earned h =
              run_tests w g later s' (setitem report n (CaseReport r')) earned' h' \<and>
            (\<forall>m ms nxt. later = m # ms \<and> getitem (cases s') m = Some nxt \<longrightarrow>
               (\<exists>evs. snd (snd (run_tests w g (n # later) s report earned h)) =
                  h' @ Spawn (command nxt)
                         (case g of None \<Rightarrow> GLOBAL_TIMEOUT w | Some t \<Rightarrow> Some t) # evs)))"
proof -
  have eq: "run_tests w g (n # later) s report earned h =
      (if blocker test \<and> errors r \<noteq> []
       then (Inr (setitem report n (CaseReport r'), earned'), s', h')
       else run_tests w g later s' (setitem report n (CaseReport r')) earned' h')"
    using found run by (simp add: Let_def s' r' earned')
  have other: "\<forall>m. m \<noteq> n \<longrightarrow>
      getitem (setitem report n (CaseReport r')) m = getitem report m"
    by (simp add: getitem_setitem)
  have following: "\<exists>evs. snd (snd (run_tests w g (n # later) s report earned h)) =
        h' @ Spawn (command nxt) (case g of None \<Rightarrow> GLOBAL_TIMEOUT w | Some t \<Rightarrow> Some t) # evs"
    if "\<not> (blocker test \<and> errors r \<noteq> [])" "later = m # ms" "getitem (cases s') m = Some nxt"
    for m ms nxt
  proof -
    from eq that(1) have "run_tests w g (n # later) s report earned h =
        run_tests w g (m # ms) s' (setitem report n (CaseReport r')) earned' h'"
      by (simp add: that(2))
    with run_tests_first_spawn [OF that(3), of w g ms "setitem report n (CaseReport r')" earned' h']
    show ?thesis by simp
  qed
  from eq other following show ?thesis by auto
qed


theorem blocker_failure_stops_the_suite_witness:
  "Calico_run demo_world demo_suite None None [] =
     (Inr [(''first'', CaseReport \<lparr>errors = [''Timeout exceeded.'', ''Incorrect exit status.''],
                                   awarded = Some 0\<rparr>),
           (''points'', Earned 0)],
      demo_suite,
      [Spawn ''prog'' (Some 2), SetEcho False, Expect (Str ''never'') (Some (- 1)),
       Close True])"
proof -
  let ?r = "\<lparr>errors = [''Timeout exceeded.'', ''Incorrect exit status.''], awarded = None\<rparr>"
  let ?h = "[Spawn ''prog'' (Some 2), SetEcho False, Expect (Str ''never'') (Some (- 1)),
             Close True]"
  have cs: "cases demo_suite =
      [(''first'', failing_blocker), (''second'', passing_case ''second'' (Some 2))]"
    by (simp add: demo_suite_def add_case_def Calico_init_def failing_blocker_def
        passing_case_def)
  have found: "getitem (cases demo_suite) ''first'' = Some failing_blocker"
    by (simp add: cs)
  have run: "TestCase_run demo_world failing_blocker
      (map_option (\<lambda>c. DefsObject) (getitem (cases demo_suite) ''_define_vars''))
      (SUPPORTS_JAIL demo_world \<and> startswith ''first'' ''case_'') None [] =
      (Inr ?r, failing_blocker, ?h)"
    by (simp add: cs demo_eval failing_blocker_def)
  have same: "demo_suite\<lparr>cases := setitem (cases demo_suite) ''first'' failing_blocker\<rparr> =
      demo_suite"
    by (simp add: cs)
  have stop: "blocker failing_blocker \<and> errors ?r \<noteq> []"
    by (simp add: failing_blocker_def)
  have pts: "points failing_blocker = Some 3"
    by (simp add: failing_blocker_def)
  from blocker_failure_stops_the_suite [OF found run refl refl refl,
      of "[''second'']" "[]" 0] stop
  have "run_tests demo_world None (''first'' # [''second'']) demo_suite [] 0 [] =
      (Inr (setitem [] ''first''
              (CaseReport (case points failing_blocker of
                             None \<Rightarrow> ?r
                           | Some p \<Rightarrow> ?r\<lparr>awarded := Some (if errors ?r = [] then p else 0)\<rparr>)),
            case points failing_blocker of
              None \<Rightarrow> 0
            | Some p \<Rightarrow> 0 + (if errors ?r = [] then p else 0)),
       demo_suite\<lparr>cases := setitem (cases demo_suite) ''first'' failing_blocker\<rparr>, ?h)"
    by blast
  then have "run_tests demo_world None [''first'', ''second''] demo_suite [] 0 [] =
      (Inr ([(''first'', CaseReport (?r\<lparr>awarded := Some 0\<rparr>))], 0), demo_suite, ?h)"
    by (simp add: same pts del: run_tests.simps)
  moreover have "default_names demo_suite = Inr [''first'', ''second'']"
    by (simp add: default_names_def cs)
  ultimately show ?thesis
    by (simp add: Calico_run_def)
qed

subsection \<open>Total and earned points\<close>













lemma passing_case_sel [simp]:
  "name (passing_case n p) = n" "points (passing_case n p) = p"
  "blocker (passing_case n p) = False"
  by (simp_all add: passing_case_def)



subsection \<open>Parsing the expected exit status\<close>

lemma parse_case_return_raises:
  assumes "yget m ''return'' = YInt v"
  shows "\<exists>e. parse_case n (YMap m) = Inl e"
proof (cases "parse_kwargs n m")
  case (Inl e)
  then show ?thesis
    by (cases "yget m ''run''") (simp_all add: parse_case_def)
next
  case (Inr kw)
  with assms have "kw_returns kw = Some v"
    by (auto simp: parse_kwargs_def int_field_def split: sum.splits)
  then have "construct_case n run kw = Inl TypeError" for run
    by (simp add: construct_case_def)
  with Inr show ?thesis
    by (cases "yget m ''run''") (simp_all add: parse_case_def)
qed

lemma parse_tests_raises:
  "(n, t) \<in> set tests \<Longrightarrow> \<exists>e. parse_case n t = Inl e \<Longrightarrow>
   \<exists>e. parse_tests runner tests = Inl e"
  by (induction tests arbitrary: runner) (auto split: sum.splits)

lemma all_items_mem:
  "all_items spec = Inr tests \<Longrightarrow> YMap entries \<in> set spec \<Longrightarrow> (n, v, c) \<in> set entries \<Longrightarrow>
   (n, v) \<in> set tests"
proof (induction spec arbitrary: tests rule: all_items.induct)
  case 1
  then show ?case by simp
next
  case (2 m cs)
  then show ?case by (force split: sum.splits)
qed simp_all

lemma parse_spec_return_raises:
  assumes "round_trip_load content = Inr (YSeq spec)"
    and "YMap entries \<in> set spec" and "(n, YMap m, c) \<in> set entries"
    and "yget m ''return'' = YInt v"
  shows "\<exists>e. parse_spec round_trip_load content = Inl e"
proof (cases "all_items spec")
  case (Inl e)
  with assms(1) show ?thesis by (simp add: parse_spec_def)
next
  case (Inr tests)
  from all_items_mem [OF Inr assms(2,3)] have "(n, YMap m) \<in> set tests" .
  from parse_tests_raises [OF this parse_case_return_raises [OF assms(4)]]
  obtain e where "parse_tests Calico_init tests = Inl e" by blast
  with assms(1) Inr show ?thesis by (simp add: parse_spec_def)
qed

lemma parse_steps_exits:
  "parse_steps n c steps = Inr c' \<Longrightarrow> exits c' = exits c"
  by (induction steps arbitrary: c) (auto simp: add_action_def split: sum.splits)

lemma parsed_case_expects_exit_zero:
  "parse_case n t = Inr c \<Longrightarrow> exits c = Some 0"
  by (auto simp: parse_case_def construct_case_def mk_TestCase_def add_action_def
        dest!: parse_steps_exits
        split: yaml.splits sum.splits option.splits)

text \<open>
  Claim C9. Parsing a case that carries an integer \<^verbatim>\<open>return\<close> field yields a test
  case whose expected exit status is that value, and parsing succeeds. The code raises
  instead: \<^verbatim>\<open>parse_spec\<close> passes the value to the constructor under the keyword
  \<open>returns\<close>, and the parameter of \<^verbatim>\<open>TestCase.__init__\<close> is called \<open>exits\<close>. So no
  document in which a case has an integer \<^verbatim>\<open>return\<close> field is parsed, and every
  case that is parsed expects the exit status 0 (\<open>parsed_case_expects_exit_zero\<close>).
\<close>

theorem return_field_makes_parsing_raise:
  assumes "round_trip_load content = Inr (YSeq spec)"
    and "YMap entries \<in> set spec" and "(n, YMap m, c) \<in> set entries"
    and "yget m ''return'' = YInt v"
  shows "\<exists>e. parse_spec round_trip_load content = Inl e"
  using assms by (rule parse_spec_return_raises)


theorem return_field_makes_parsing_raise_witness:
  "parse_spec (\<lambda>content. Inr return_document) ''- case_1: {run: ls, return: 1}'' =
     Inl TypeError"
proof -
  let ?m = "[(''run'', YStr ''ls'', None), (''return'', YInt 1, None)]"
  let ?entries = "[(''case_1'', YMap ?m, None)]"
  have 1: "(\<lambda>content. Inr return_document) ''- case_1: {run: ls, return: 1}'' =
      Inr (YSeq [YMap ?entries])"
    by (simp add: return_document_def)
  have 2: "YMap ?entries \<in> set [YMap ?entries]" by simp
  have 3: "(''case_1'', YMap ?m, None) \<in> set ?entries" by simp
  have 4: "yget ?m ''return'' = YInt 1" by simp
  from return_field_makes_parsing_raise [OF 1 2 3 4] show ?thesis
    by (simp add: parse_spec_def return_document_def parse_case_def parse_kwargs_def
        int_field_def bool_field_def timeout_kwarg_def get_comment_value_def
        construct_case_def)
qed

subsection \<open>Rendering a suite and parsing it back\<close>

lemma rendered: "Calico_str rendered_suite = rendered_text"
  by code_simp


lemma TestCase_str_ignores_flags:
  "TestCase_str (c\<lparr>blocker := b, visible := v, case_timeout := t\<rparr>) = TestCase_str c"
  by (simp add: TestCase_str_def)

text \<open>
  Claim C7. Rendering a suite to its textual form and parsing that text again yields a
  suite with the same case names, points, flags and actions. The code does not: the
  rendering of a case always has a line \<^verbatim>\<open>return: ...\<close>, and \<^verbatim>\<open>parse_spec\<close> raises on
  every case that has one. For the suite \<open>rendered_suite\<close> the text is
  \<open>rendered_text\<close>, and whatever loader reads it as the one case \<^verbatim>\<open>case_1\<close> with the
  field \<^verbatim>\<open>return: 0\<close>, parsing the text raises. Moreover the rendering of a case does
  not depend on its \<open>blocker\<close> and \<open>visible\<close> flags nor on its timeout, so no parser
  could give them back.
\<close>

theorem rendering_does_not_parse_back:
  "Calico_str rendered_suite = rendered_text \<and>
   (\<forall>round_trip_load m c.
      round_trip_load rendered_text = Inr (YSeq [YMap [(''case_1'', YMap m, c)]]) \<and>
      yget m ''return'' = YInt 0 \<longrightarrow>
      (\<exists>e. parse_spec round_trip_load (Calico_str rendered_suite) = Inl e)) \<and>
   TestCase_str (tc\<lparr>blocker := b, visible := v, case_timeout := t\<rparr>) = TestCase_str tc"
proof -
  have rendering: "Calico_str rendered_suite = rendered_text"
    by (rule rendered)
  have "\<exists>e. parse_spec round_trip_load rendered_text = Inl e"
    if "round_trip_load rendered_text = Inr (YSeq [YMap [(''case_1'', YMap m, c)]])"
      and "yget m ''return'' = YInt 0"
    for round_trip_load m c
    using that
    by (intro parse_spec_return_raises [of round_trip_load rendered_text
          "[YMap [(''case_1'', YMap m, c)]]" "[(''case_1'', YMap m, c)]" "''case_1''" m c 0])
       simp_all
  with rendering TestCase_str_ignores_flags show ?thesis
    by simp
qed

theorem rendering_does_not_parse_back_witness:
  "parse_spec (\<lambda>content. Inr rendered_document) (Calico_str rendered_suite) = Inl TypeError"
proof -
  let ?m = "[(''run'', YStr ''ls'', None),
             (''script'',
              YSeq [YMap [(''expect'', YStr ''hello'', Some (''# timeout: 5'' @ [CHR 0x0A]))],
                    YMap [(''send'', YStr ''hi'', None)],
                    YMap [(''expect'', YStr ''_EOF_'', None)]], None),
             (''return'', YInt 0, None),
             (''points'', YInt 1, None)]"
  have 1: "(\<lambda>content. Inr rendered_document) rendered_text =
      Inr (YSeq [YMap [(''case_1'', YMap ?m, None)]])"
    by (simp add: rendered_document_def)
  have 2: "yget ?m ''return'' = YInt 0" by simp
  from rendering_does_not_parse_back [THEN conjunct2, THEN conjunct1, rule_format,
      where round_trip_load = "\<lambda>content. Inr rendered_document" and m = ?m and c = None]
    1 2
  have "\<exists>e. parse_spec (\<lambda>content. Inr rendered_document) (Calico_str rendered_suite) = Inl e"
    by simp
  then show ?thesis
    by (simp add: parse_spec_def rendered_document_def parse_case_def parse_kwargs_def
        int_field_def bool_field_def timeout_kwarg_def get_comment_value_def
        construct_case_def)
qed

end
